theory Spec2Isabelle
  imports Main "HOL-Library.Word" "HOL-Library.List_Lexorder"
begin

section \<open>Containers and their iterators\<close>

text \<open>
  The header \<^verbatim>\<open>Iter.h\<close> zips N random-access containers. The containers are borrowed by
  reference (\<^verbatim>\<open>Args &...containers\<close>), so the model keeps them in a store indexed by the
  address of the container object; two references to one container are the same address.
  An iterator of a container (\<^verbatim>\<open>typename Args::iterator\<close>) is the container it points into
  and its signed distance from that container's \<^verbatim>\<open>begin()\<close>. Positions are not range
  checked by the iterator arithmetic, exactly as in the source; only reading or writing
  through an iterator needs a position inside the container, and is undefined (\<open>None\<close>)
  elsewhere. The element types of the N containers are represented by one type \<open>'a\<close>.
\<close>

type_synonym addr = nat

type_synonym 'a containers = "addr \<Rightarrow> 'a list"

record iterator =
  cont :: addr
  pos :: int

text \<open>\<^verbatim>\<open>containers.begin()\<close>, \<^verbatim>\<open>containers.end()\<close> and \<^verbatim>\<open>containers.size()\<close>.\<close>

definition begin_of :: "addr \<Rightarrow> iterator" where
  "begin_of c = \<lparr>cont = c, pos = 0\<rparr>"

definition end_of :: "'a containers \<Rightarrow> addr \<Rightarrow> iterator" where
  "end_of s c = \<lparr>cont = c, pos = int (length (s c))\<rparr>"

definition size_of :: "'a containers \<Rightarrow> addr \<Rightarrow> nat" where
  "size_of s c = length (s c)"

text \<open>\<^verbatim>\<open>++x\<close>, \<^verbatim>\<open>--x\<close> and \<^verbatim>\<open>std::advance(x, n)\<close> on a random-access iterator.\<close>

definition it_incr :: "iterator \<Rightarrow> iterator" where
  "it_incr x = x\<lparr>pos := pos x + 1\<rparr>"

definition it_decr :: "iterator \<Rightarrow> iterator" where
  "it_decr x = x\<lparr>pos := pos x - 1\<rparr>"

definition advance :: "iterator \<Rightarrow> int \<Rightarrow> iterator" where
  "advance x n = x\<lparr>pos := pos x + n\<rparr>"

text \<open>
  The difference and the order of two iterators are defined by the language only inside one
  container; \<open>None\<close> stands for the case it leaves open.
\<close>

definition it_diff :: "iterator \<Rightarrow> iterator \<Rightarrow> int option" where
  "it_diff x y = (if cont x = cont y then Some (pos x - pos y) else None)"

definition it_less :: "iterator \<Rightarrow> iterator \<Rightarrow> bool option" where
  "it_less x y = (if cont x = cont y then Some (pos x < pos y) else None)"

text \<open>
  Dereferencing an iterator gives a reference to an element: the container and the index of
  the slot. It is defined for positions \<open>0 \<le> pos < size\<close> only.
\<close>

datatype elem_ref = ElemRef addr nat

definition it_deref :: "'a containers \<Rightarrow> iterator \<Rightarrow> elem_ref option" where
  "it_deref s x =
     (if 0 \<le> pos x \<and> pos x < int (length (s (cont x)))
      then Some (ElemRef (cont x) (nat (pos x))) else None)"

fun ref_get :: "'a containers \<Rightarrow> elem_ref \<Rightarrow> 'a" where
  "ref_get s (ElemRef c i) = s c ! i"

section \<open>Tuples of the standard library\<close>

text \<open>
  A \<^verbatim>\<open>std::tuple\<close> is the list of its components. \<^verbatim>\<open>operator==\<close> of two tuples of one type
  is equality of all components, which is equality of the lists. \<^verbatim>\<open>operator<\<close> is the
  standard's recursion: the first components decide when one is less than the other, and
  otherwise the tails are compared. The remaining operators are derived from these two as
  the standard does. Both operands of every comparison in \<^verbatim>\<open>Iter.h\<close> have one tuple type, so
  lists of different lengths never meet; the last equation is there for totality.
\<close>

fun tuple_less :: "('a \<Rightarrow> 'a \<Rightarrow> bool option) \<Rightarrow> 'a list \<Rightarrow> 'a list \<Rightarrow> bool option" where
  "tuple_less lt [] [] = Some False"
| "tuple_less lt (x # xs) (y # ys) =
     (case lt x y of
        None \<Rightarrow> None
      | Some True \<Rightarrow> Some True
      | Some False \<Rightarrow>
          (case lt y x of
             None \<Rightarrow> None
           | Some True \<Rightarrow> Some False
           | Some False \<Rightarrow> tuple_less lt xs ys))"
| "tuple_less lt _ _ = None"

definition tuple_greater :: "('a \<Rightarrow> 'a \<Rightarrow> bool option) \<Rightarrow> 'a list \<Rightarrow> 'a list \<Rightarrow> bool option" where
  "tuple_greater lt xs ys = tuple_less lt ys xs"

definition tuple_less_eq :: "('a \<Rightarrow> 'a \<Rightarrow> bool option) \<Rightarrow> 'a list \<Rightarrow> 'a list \<Rightarrow> bool option" where
  "tuple_less_eq lt xs ys = map_option Not (tuple_less lt ys xs)"

definition tuple_greater_eq :: "('a \<Rightarrow> 'a \<Rightarrow> bool option) \<Rightarrow> 'a list \<Rightarrow> 'a list \<Rightarrow> bool option" where
  "tuple_greater_eq lt xs ys = map_option Not (tuple_less lt xs ys)"

section \<open>The cursor: \<^verbatim>\<open>Iter\<close> and its \<^verbatim>\<open>IterPack\<close>\<close>

text \<open>The member \<^verbatim>\<open>iters_\<close> of \<^verbatim>\<open>IterPack\<close> is the field \<open>iters\<close>.\<close>

record IterPack =
  iters :: "iterator list"

record Iter =
  pack :: IterPack

text \<open>
  The shift of \<^verbatim>\<open>operator+\<close> and \<^verbatim>\<open>operator+=\<close> is a C++ \<^verbatim>\<open>int\<close>: a signed machine integer
  of 32 bits on the platforms the library is built for, a word read in two's complement
  by \<open>sint\<close>. \<^verbatim>\<open>difference_type\<close> is
  \<^verbatim>\<open>std::ptrdiff_t\<close>, which holds every distance inside a container, and is an \<open>int\<close> here.
\<close>

type_synonym c_int = "32 word"

type_synonym difference_type = int

text \<open>The constructor \<^verbatim>\<open>Iter(typename Args::iterator &&... iters) : pack(iters...)\<close>.\<close>

definition Iter_ctor :: "iterator list \<Rightarrow> Iter" where
  "Iter_ctor its = \<lparr>pack = \<lparr>iters = its\<rparr>\<rparr>"

text \<open>
  \<^verbatim>\<open>apply_all\<close> calls the function once on every component of the tuple. The components are
  separate objects, so the order of the calls (which the language leaves open for the
  arguments of \<^verbatim>\<open>null_wrap\<close>) does not show in the result.
\<close>

definition apply_all :: "(iterator \<Rightarrow> iterator) \<Rightarrow> iterator list \<Rightarrow> iterator list" where
  "apply_all func its = map func its"

text \<open>\<^verbatim>\<open>operator++\<close> and \<^verbatim>\<open>operator--\<close>: the new value of \<^verbatim>\<open>*this\<close>, which is also returned.\<close>

definition Iter_incr :: "Iter \<Rightarrow> Iter" where
  "Iter_incr it = it\<lparr>pack := (pack it)\<lparr>iters := apply_all it_incr (iters (pack it))\<rparr>\<rparr>"

definition Iter_decr :: "Iter \<Rightarrow> Iter" where
  "Iter_decr it = it\<lparr>pack := (pack it)\<lparr>iters := apply_all it_decr (iters (pack it))\<rparr>\<rparr>"

text \<open>
  \<^verbatim>\<open>operator-\<close>: the difference of the first components, \<^verbatim>\<open>std::get<0>\<close>. A cursor of no
  container has no first component (the expression does not instantiate).
\<close>

definition Iter_diff :: "Iter \<Rightarrow> Iter \<Rightarrow> difference_type option" where
  "Iter_diff lhs rhs =
     (case iters (pack lhs) of
        [] \<Rightarrow> None
      | x # _ \<Rightarrow> (case iters (pack rhs) of [] \<Rightarrow> None | y # _ \<Rightarrow> it_diff x y))"

text \<open>\<^verbatim>\<open>operator+=\<close> advances every component; \<^verbatim>\<open>operator+\<close> does so on a copy.\<close>

definition Iter_add_assign :: "Iter \<Rightarrow> c_int \<Rightarrow> Iter" where
  "Iter_add_assign it shift =
     it\<lparr>pack := (pack it)\<lparr>iters := apply_all (\<lambda>x. advance x (sint shift)) (iters (pack it))\<rparr>\<rparr>"

definition Iter_add :: "Iter \<Rightarrow> c_int \<Rightarrow> Iter" where
  "Iter_add this shift = (let it = this in Iter_add_assign it shift)"

text \<open>The six comparisons of cursors, each the same comparison of the tuples of iterators.\<close>

definition Iter_eq :: "Iter \<Rightarrow> Iter \<Rightarrow> bool" where
  "Iter_eq lhs rhs = (iters (pack lhs) = iters (pack rhs))"

definition Iter_ne :: "Iter \<Rightarrow> Iter \<Rightarrow> bool" where
  "Iter_ne lhs rhs = (iters (pack lhs) \<noteq> iters (pack rhs))"

definition Iter_le :: "Iter \<Rightarrow> Iter \<Rightarrow> bool option" where
  "Iter_le lhs rhs = tuple_less_eq it_less (iters (pack lhs)) (iters (pack rhs))"

definition Iter_ge :: "Iter \<Rightarrow> Iter \<Rightarrow> bool option" where
  "Iter_ge lhs rhs = tuple_greater_eq it_less (iters (pack lhs)) (iters (pack rhs))"

definition Iter_gt :: "Iter \<Rightarrow> Iter \<Rightarrow> bool option" where
  "Iter_gt lhs rhs = tuple_greater it_less (iters (pack lhs)) (iters (pack rhs))"

definition Iter_lt :: "Iter \<Rightarrow> Iter \<Rightarrow> bool option" where
  "Iter_lt lhs rhs = tuple_less it_less (iters (pack lhs)) (iters (pack rhs))"

text \<open>
  \<^verbatim>\<open>operator*\<close> of a cursor returns \<^verbatim>\<open>IterPack &\<close>, a reference to the member \<^verbatim>\<open>pack\<close> of the
  cursor object it is called on. Where that matters the cursor objects live in a store of
  their own, and the reference is the address of the cursor whose member it is. Reading the
  reference looks the member up in the current store; an operator that works in place
  replaces the object at its address; copy-constructing an \<^verbatim>\<open>IterPack\<close> (the \<^verbatim>\<open>value_type\<close>)
  from the reference copies the member \<^verbatim>\<open>iters_\<close>.
\<close>

type_synonym cursors = "addr \<Rightarrow> Iter"

datatype pack_ref = PackOf addr

definition Iter_star :: "addr \<Rightarrow> pack_ref" where
  "Iter_star this = PackOf this"

fun pack_get :: "cursors \<Rightarrow> pack_ref \<Rightarrow> IterPack" where
  "pack_get \<sigma> (PackOf a) = pack (\<sigma> a)"

definition in_place :: "(Iter \<Rightarrow> Iter) \<Rightarrow> addr \<Rightarrow> cursors \<Rightarrow> cursors" where
  "in_place f this \<sigma> = \<sigma>(this := f (\<sigma> this))"

definition IterPack_copy :: "cursors \<Rightarrow> pack_ref \<Rightarrow> IterPack" where
  "IterPack_copy \<sigma> r = \<lparr>iters = iters (pack_get \<sigma> r)\<rparr>"

section \<open>The pack: values behind the cursor\<close>

text \<open>
  The const \<^verbatim>\<open>deref\<close> builds \<^verbatim>\<open>std::forward_as_tuple(*std::get<Seq>(iters_)...)\<close>: the tuple of
  the references obtained by dereferencing every component. It is undefined as soon as one
  component cannot be dereferenced. \<open>deref_seq\<close> is the helper \<^verbatim>\<open>deref_\<close>, which runs over the
  index sequence.
\<close>

fun deref_seq :: "'a containers \<Rightarrow> iterator list \<Rightarrow> elem_ref list option" where
  "deref_seq s [] = Some []"
| "deref_seq s (x # xs) =
     (case it_deref s x of
        None \<Rightarrow> None
      | Some r \<Rightarrow> (case deref_seq s xs of None \<Rightarrow> None | Some rs \<Rightarrow> Some (r # rs)))"

definition deref :: "'a containers \<Rightarrow> IterPack \<Rightarrow> elem_ref list option" where
  "deref s this = deref_seq s (iters this)"

text \<open>
  \<^verbatim>\<open>operator<\<close> and \<^verbatim>\<open>operator==\<close> of packs compare the two tuples of references, that is the
  values the references denote.
\<close>

definition IterPack_lt :: "('a::ord) containers \<Rightarrow> IterPack \<Rightarrow> IterPack \<Rightarrow> bool option" where
  "IterPack_lt s this rhs =
     (case deref s this of
        None \<Rightarrow> None
      | Some l \<Rightarrow>
          (case deref s rhs of
             None \<Rightarrow> None
           | Some r \<Rightarrow>
               tuple_less (\<lambda>u v. Some (u < v)) (map (ref_get s) l) (map (ref_get s) r)))"

definition IterPack_eq :: "'a containers \<Rightarrow> IterPack \<Rightarrow> IterPack \<Rightarrow> bool option" where
  "IterPack_eq s this rhs =
     (case deref s this of
        None \<Rightarrow> None
      | Some l \<Rightarrow>
          (case deref s rhs of
             None \<Rightarrow> None
           | Some r \<Rightarrow> Some (map (ref_get s) l = map (ref_get s) r)))"

text \<open>
  \<^verbatim>\<open>swap(IterPack &lhs, IterPack &rhs)\<close> has no embedding. It is a friend defined inside
  the nested class \<^verbatim>\<open>IterPack\<close>, and its body calls \<^verbatim>\<open>apply_binary\<close>, a static member that
  \<^verbatim>\<open>Iter\<close> declares in its private section. Friendship of \<^verbatim>\<open>IterPack\<close> gives access to the
  members of \<^verbatim>\<open>IterPack\<close> only, not to the private members of the enclosing \<^verbatim>\<open>Iter\<close>, so
  the call is refused and \<^verbatim>\<open>swap\<close> has no instance: there is no behaviour of it to state.
\<close>

section \<open>The creation functions\<close>

datatype error = LengthEqualityException

text \<open>
  \<^verbatim>\<open>all_equal\<close> has three overloads, for one, two, and three or more arguments; none takes
  zero arguments, so the first argument is separate from the list of the others.
\<close>

fun all_equal :: "nat \<Rightarrow> nat list \<Rightarrow> bool" where
  "all_equal x [] = True"
| "all_equal x [y] = (x = y)"
| "all_equal x (y # a # args) = (x = y \<and> all_equal y (a # args))"

definition Begin :: "'a containers \<Rightarrow> addr \<Rightarrow> addr list \<Rightarrow> error + Iter" where
  "Begin s c cs =
     (if \<not> all_equal (size_of s c) (map (size_of s) cs)
      then Inl LengthEqualityException
      else Inr (Iter_ctor (map begin_of (c # cs))))"

definition End :: "'a containers \<Rightarrow> addr list \<Rightarrow> Iter" where
  "End s cs = Iter_ctor (map (end_of s) cs)"

section \<open>Vocabulary of the properties\<close>

text \<open>
  \<open>cursor_at cs k\<close> is the cursor over the group of containers \<open>cs\<close> whose every component
  stands at offset \<open>k\<close> from the start of its own container.
\<close>

definition cursor_at :: "addr list \<Rightarrow> int \<Rightarrow> Iter" where
  "cursor_at cs k = \<lparr>pack = \<lparr>iters = map (\<lambda>c. \<lparr>cont = c, pos = k\<rparr>) cs\<rparr>\<rparr>"

text \<open>
  The invariant of a cursor: all its components stand at one offset. A cursor is over a group
  \<open>cs\<close> when its i-th component points into the i-th container of the group.
\<close>

definition synchronized :: "Iter \<Rightarrow> bool" where
  "synchronized it \<longleftrightarrow>
     (\<forall>x \<in> set (iters (pack it)). \<forall>y \<in> set (iters (pack it)). pos x = pos y)"

definition over :: "addr list \<Rightarrow> Iter \<Rightarrow> bool" where
  "over cs it \<longleftrightarrow> map cont (iters (pack it)) = cs"

definition positions :: "Iter \<Rightarrow> int list" where
  "positions it = map pos (iters (pack it))"


text \<open>
  A cursor can be dereferenced in a state of the containers when every component stands
  inside its container; \<open>values_at\<close> is then the tuple of the pointed-to values.
\<close>

definition dereferenceable :: "'a containers \<Rightarrow> Iter \<Rightarrow> bool" where
  "dereferenceable s it \<longleftrightarrow>
     (\<forall>x \<in> set (iters (pack it)). 0 \<le> pos x \<and> pos x < int (length (s (cont x))))"

definition values_at :: "'a containers \<Rightarrow> Iter \<Rightarrow> 'a list" where
  "values_at s it = map (\<lambda>x. s (cont x) ! nat (pos x)) (iters (pack it))"

section \<open>Construction\<close>

lemma all_equal_iff: "all_equal x ys \<longleftrightarrow> (\<forall>y \<in> set ys. y = x)"
  by (induction x ys rule: all_equal.induct) auto

lemma Begin_cases:
  "Begin s c cs =
     (if \<forall>d \<in> set cs. length (s d) = length (s c)
      then Inr (cursor_at (c # cs) 0) else Inl LengthEqualityException)"
  by (simp add: Begin_def all_equal_iff size_of_def Iter_ctor_def cursor_at_def begin_of_def)

lemma End_cursor_at:
  "\<forall>d \<in> set cs. length (s d) = L \<Longrightarrow> End s cs = cursor_at cs (int L)"
  by (simp add: End_def Iter_ctor_def cursor_at_def end_of_def)

section \<open>Facts about the model\<close>

subsection \<open>Tuple comparisons\<close>

text \<open>
  On tuples of one arity the standard's recursion is the lexicographic order of lists, both
  for iterators into the same containers and for values of a linear order.
\<close>

lemma tuple_less_it:
  "length xs = length ys \<Longrightarrow> map cont xs = map cont ys \<Longrightarrow>
   tuple_less it_less xs ys = Some (map pos xs < map pos ys)"
  by (induction xs ys rule: list_induct2) (auto simp: it_less_def split: bool.splits)

lemma tuple_less_val:
  fixes us :: "('a::linorder) list"
  shows "length us = length vs \<Longrightarrow> tuple_less (\<lambda>u v. Some (u < v)) us vs = Some (us < vs)"
  by (induction us vs rule: list_induct2) (auto split: bool.splits)

lemma iterator_eq_iff: "(x :: iterator) = y \<longleftrightarrow> cont x = cont y \<and> pos x = pos y"
  by (cases x, cases y) simp

lemma iters_eq_iff:
  "map cont xs = map cont ys \<Longrightarrow> (xs = ys) = (map pos xs = map pos ys)" for xs ys :: "iterator list"
proof (induction xs arbitrary: ys)
  case Nil
  then show ?case by simp
next
  case (Cons x xs)
  then show ?case by (cases ys) (auto simp: iterator_eq_iff)
qed

lemma tuple_ops_it:
  assumes "length xs = length ys" and "map cont xs = map cont ys"
  shows "tuple_less it_less xs ys = Some (map pos xs < map pos ys)"
    and "tuple_greater it_less xs ys = Some (map pos xs > map pos ys)"
    and "tuple_less_eq it_less xs ys = Some (map pos xs \<le> map pos ys)"
    and "tuple_greater_eq it_less xs ys = Some (map pos xs \<ge> map pos ys)"
proof -
  show 1: "tuple_less it_less xs ys = Some (map pos xs < map pos ys)"
    using assms by (rule tuple_less_it)
  have 2: "tuple_less it_less ys xs = Some (map pos ys < map pos xs)"
    using assms by (simp add: tuple_less_it)
  show "tuple_greater it_less xs ys = Some (map pos xs > map pos ys)"
    by (simp add: tuple_greater_def 2)
  show "tuple_less_eq it_less xs ys = Some (map pos xs \<le> map pos ys)"
    by (simp add: tuple_less_eq_def 2 not_less)
  show "tuple_greater_eq it_less xs ys = Some (map pos xs \<ge> map pos ys)"
    by (simp add: tuple_greater_eq_def 1 not_less)
qed

subsection \<open>Cursor arithmetic\<close>

lemma Iter_incr_cursor_at: "Iter_incr (cursor_at cs k) = cursor_at cs (k + 1)"
  by (simp add: Iter_incr_def cursor_at_def apply_all_def it_incr_def)

lemma Iter_decr_cursor_at: "Iter_decr (cursor_at cs k) = cursor_at cs (k - 1)"
  by (simp add: Iter_decr_def cursor_at_def apply_all_def it_decr_def)

lemma Iter_add_assign_cursor_at: "Iter_add_assign (cursor_at cs k) n = cursor_at cs (k + sint n)"
  by (simp add: Iter_add_assign_def cursor_at_def apply_all_def advance_def)

lemma Iter_add_eq: "Iter_add it n = Iter_add_assign it n"
  by (simp add: Iter_add_def)

lemma Iter_incr_funpow: "(Iter_incr ^^ n) (cursor_at cs k) = cursor_at cs (k + int n)"
  by (induction n) (simp_all add: Iter_incr_cursor_at add.commute add.left_commute)

lemma positions_incr: "positions (Iter_incr it) = map (\<lambda>p. p + 1) (positions it)"
  by (simp add: positions_def Iter_incr_def apply_all_def it_incr_def)

lemma replicate_map_const: "map (\<lambda>c. k) cs = replicate (length cs) k"
  by (induction cs) simp_all

lemma positions_cursor_at: "positions (cursor_at cs k) = replicate (length cs) k"
  by (simp add: positions_def cursor_at_def comp_def replicate_map_const)

lemma over_cursor_at: "over cs (cursor_at cs k)"
  by (simp add: over_def cursor_at_def comp_def)

lemma iters_Iter_incr: "iters (pack (Iter_incr it)) = map it_incr (iters (pack it))"
  by (simp add: Iter_incr_def apply_all_def)

lemma iters_Iter_decr: "iters (pack (Iter_decr it)) = map it_decr (iters (pack it))"
  by (simp add: Iter_decr_def apply_all_def)

lemma iters_Iter_add_assign:
  "iters (pack (Iter_add_assign it n)) = map (\<lambda>x. advance x (sint n)) (iters (pack it))"
  by (simp add: Iter_add_assign_def apply_all_def)

lemma pos_shift_simps:
  "pos (it_incr x) = pos x + 1" "pos (it_decr x) = pos x - 1" "pos (advance x n) = pos x + n"
  "cont (it_incr x) = cont x" "cont (it_decr x) = cont x" "cont (advance x n) = cont x"
  by (simp_all add: it_incr_def it_decr_def advance_def)

lemma synchronized_shift:
  assumes "synchronized it" and "iters (pack it') = map f (iters (pack it))"
    and "\<And>x. pos (f x) = pos x + n"
  shows "synchronized it'"
  unfolding synchronized_def
proof (intro ballI)
  fix x y
  assume "x \<in> set (iters (pack it'))" and "y \<in> set (iters (pack it'))"
  then have "x \<in> f ` set (iters (pack it))" and "y \<in> f ` set (iters (pack it))"
    by (simp_all add: assms(2))
  then obtain u v where u: "u \<in> set (iters (pack it))" "x = f u"
    and v: "v \<in> set (iters (pack it))" "y = f v"
    by blast
  from assms(1) u(1) v(1) have "pos u = pos v"
    unfolding synchronized_def by blast
  then show "pos x = pos y"
    by (simp only: u(2) v(2) assms(3))
qed

lemma positions_map:
  "iters (pack it') = map f (iters (pack it)) \<Longrightarrow> (\<And>x. pos (f x) = pos x + n) \<Longrightarrow>
   positions it' = map (\<lambda>p. p + n) (positions it)"
  by (simp add: positions_def)

lemma first_conts_equal:
  "iters (pack lhs) = x # xs \<Longrightarrow> iters (pack rhs) = y # ys \<Longrightarrow> over cs lhs \<Longrightarrow> over cs rhs \<Longrightarrow>
   cont x = cont y"
  by (auto simp: over_def)

lemma synchronized_nth:
  assumes "synchronized it" and "iters (pack it) = x # xs" and "i < Suc (length xs)"
  shows "positions it ! i = pos x"
proof -
  have "(x # xs) ! i \<in> set (x # xs)"
    using assms(3) by (simp only: nth_mem length_Cons)
  moreover have "x \<in> set (x # xs)"
    by simp
  ultimately have "pos ((x # xs) ! i) = pos x"
    using assms(1) unfolding synchronized_def assms(2) by blast
  then show ?thesis
    using assms(3) by (simp only: positions_def assms(2) nth_map length_Cons)
qed

subsection \<open>Dereferencing\<close>

lemma deref_cursor_at:
  "\<forall>c \<in> set cs. k < length (s c) \<Longrightarrow>
   deref s (pack (cursor_at cs (int k))) = Some (map (\<lambda>c. ElemRef c k) cs)"
  by (induction cs) (simp_all add: deref_def cursor_at_def it_deref_def)

lemma deref_seq_valid:
  "\<forall>x \<in> set xs. 0 \<le> pos x \<and> pos x < int (length (s (cont x))) \<Longrightarrow>
   deref_seq s xs = Some (map (\<lambda>x. ElemRef (cont x) (nat (pos x))) xs)"
  by (induction xs) (simp_all add: it_deref_def)

lemma deref_dereferenceable:
  "dereferenceable s it \<Longrightarrow>
   deref s (pack it) = Some (map (\<lambda>x. ElemRef (cont x) (nat (pos x))) (iters (pack it)))"
  unfolding dereferenceable_def deref_def by (rule deref_seq_valid)

lemma ref_get_map:
  "map (ref_get s) (map (\<lambda>x. ElemRef (cont x) (nat (pos x))) xs) = map (\<lambda>x. s (cont x) ! nat (pos x)) xs"
  by (induction xs) simp_all

lemma values_through_cursor_at:
  assumes "\<forall>c \<in> set cs. j < length (t c)"
  shows "map_option (map (ref_get t)) (deref t (pack (cursor_at cs (int j)))) =
      Some (map (\<lambda>c. t c ! j) cs)"
proof -
  have "deref t (pack (cursor_at cs (int j))) = Some (map (\<lambda>c. ElemRef c j) cs)"
    using assms by (rule deref_cursor_at)
  then show ?thesis
    by (simp add: comp_def)
qed

section \<open>The claims\<close>

subsection \<open>Construction: C1, C6\<close>

text \<open>
  Claim C1. Whenever two of the containers handed to \<^verbatim>\<open>Begin\<close> differ in length (so there are
  at least two of them), \<^verbatim>\<open>Begin\<close> throws \<^verbatim>\<open>LengthEqualityException\<close>: the result is the error and
  never a cursor, so nothing partially built is left.
\<close>

theorem Begin_rejects_length_mismatch:
  assumes "d \<in> set (c # cs)" and "e \<in> set (c # cs)" and "length (s d) \<noteq> length (s e)"
  shows "Begin s c cs = Inl LengthEqualityException \<and> (\<forall>it. Begin s c cs \<noteq> Inr it)"
proof -
  have "\<not> (\<forall>x \<in> set cs. length (s x) = length (s c))"
  proof
    assume "\<forall>x \<in> set cs. length (s x) = length (s c)"
    then have "\<forall>x \<in> set (c # cs). length (s x) = length (s c)"
      by simp
    with assms(1,2) have "length (s d) = length (s e)"
      by metis
    with assms(3) show False ..
  qed
  then show ?thesis
    by (simp add: Begin_cases)
qed

text \<open>
  An instance: two containers of lengths 3 and 2.
\<close>

theorem Begin_rejects_length_mismatch_witness:
  "(0::nat) \<in> set (0 # [1]) \<and> (1::nat) \<in> set (0 # [1]) \<and>
   length (((\<lambda>_::nat. [])(0 := [3, 1, 2 :: int], 1 := [9, 8])) 0) \<noteq>
   length (((\<lambda>_::nat. [])(0 := [3, 1, 2 :: int], 1 := [9, 8])) 1) \<and>
   Begin ((\<lambda>_. [])(0 := [3, 1, 2 :: int], 1 := [9, 8])) 0 [1] = Inl LengthEqualityException"
  using Begin_rejects_length_mismatch
    [where d = 0 and e = 1 and c = 0 and cs = "[1]"
       and s = "(\<lambda>_. [])(0 := [3, 1, 2 :: int], 1 := [9, 8])"]
  by simp

text \<open>
  Claim C6. When all containers have one length \<open>L\<close> (zero included), \<^verbatim>\<open>Begin\<close> does not throw
  and returns the cursor whose every component is at offset 0 of its container, and \<^verbatim>\<open>End\<close>
  returns the cursor whose every component is at offset \<open>L\<close>.
\<close>

theorem Begin_End_equal_lengths:
  assumes "\<forall>d \<in> set (c # cs). length (s d) = L"
  shows "Begin s c cs = Inr (cursor_at (c # cs) 0) \<and>
         positions (cursor_at (c # cs) 0) = replicate (Suc (length cs)) 0 \<and>
         End s (c # cs) = cursor_at (c # cs) (int L) \<and>
         positions (End s (c # cs)) = replicate (Suc (length cs)) (int L)"
proof -
  have b: "Begin s c cs = Inr (cursor_at (c # cs) 0)"
    using assms by (simp add: Begin_cases)
  have e: "End s (c # cs) = cursor_at (c # cs) (int L)"
    using assms by (rule End_cursor_at)
  show ?thesis
    by (simp add: b e positions_cursor_at)
qed

text \<open>
  An instance: two containers of length 3.
\<close>

theorem Begin_End_equal_lengths_witness:
  "list_all (\<lambda>d. length (((\<lambda>_::nat. [])(0 := [3, 1, 2 :: int], 1 := [9, 8, 7])) d) = 3) (0 # [1]) \<and>
   Begin ((\<lambda>_. [])(0 := [3, 1, 2 :: int], 1 := [9, 8, 7])) 0 [1] =
     Inr (Iter_ctor [\<lparr>cont = 0, pos = 0\<rparr>, \<lparr>cont = 1, pos = 0\<rparr>]) \<and>
   End ((\<lambda>_. [])(0 := [3, 1, 2 :: int], 1 := [9, 8, 7])) [0, 1] =
     Iter_ctor [\<lparr>cont = 0, pos = 3\<rparr>, \<lparr>cont = 1, pos = 3\<rparr>]"
  using Begin_End_equal_lengths
    [where c = 0 and cs = "[1]" and L = 3
       and s = "(\<lambda>_. [])(0 := [3, 1, 2 :: int], 1 := [9, 8, 7])"]
  by (simp add: cursor_at_def Iter_ctor_def)

subsection \<open>The two comparisons: C2\<close>

text \<open>
  Claim C2. For two cursors over the same group, each of the six comparison operators of
  \<^verbatim>\<open>Iter\<close> is that comparison of the two tuples of positions, in the lexicographic order of
  tuples. The operators \<^verbatim>\<open><\<close> and \<^verbatim>\<open>==\<close> of \<^verbatim>\<open>IterPack\<close> instead compare the two tuples of
  pointed-to values, lexicographically: the value of the first container is the primary
  key and the later containers break ties.
\<close>

theorem cursor_comparisons_and_value_comparisons:
  fixes s :: "('a::linorder) containers"
  assumes "over cs lhs" and "over cs rhs"
  shows "Iter_eq lhs rhs = (positions lhs = positions rhs) \<and>
         Iter_ne lhs rhs = (positions lhs \<noteq> positions rhs) \<and>
         Iter_lt lhs rhs = Some (positions lhs < positions rhs) \<and>
         Iter_le lhs rhs = Some (positions lhs \<le> positions rhs) \<and>
         Iter_gt lhs rhs = Some (positions lhs > positions rhs) \<and>
         Iter_ge lhs rhs = Some (positions lhs \<ge> positions rhs) \<and>
         (dereferenceable s lhs \<and> dereferenceable s rhs \<longrightarrow>
            IterPack_lt s (pack lhs) (pack rhs) = Some (values_at s lhs < values_at s rhs) \<and>
            IterPack_eq s (pack lhs) (pack rhs) = Some (values_at s lhs = values_at s rhs))"
proof -
  have c: "map cont (iters (pack lhs)) = map cont (iters (pack rhs))"
    using assms by (simp add: over_def)
  then have l: "length (iters (pack lhs)) = length (iters (pack rhs))"
    by (rule map_eq_imp_length_eq)
  note ops = tuple_ops_it [OF l c]
  have eq: "(iters (pack lhs) = iters (pack rhs)) = (positions lhs = positions rhs)"
    unfolding positions_def using c by (rule iters_eq_iff)
  have pos_part: "Iter_eq lhs rhs = (positions lhs = positions rhs) \<and>
         Iter_ne lhs rhs = (positions lhs \<noteq> positions rhs) \<and>
         Iter_lt lhs rhs = Some (positions lhs < positions rhs) \<and>
         Iter_le lhs rhs = Some (positions lhs \<le> positions rhs) \<and>
         Iter_gt lhs rhs = Some (positions lhs > positions rhs) \<and>
         Iter_ge lhs rhs = Some (positions lhs \<ge> positions rhs)"
    by (simp add: Iter_eq_def Iter_ne_def Iter_lt_def Iter_le_def Iter_gt_def Iter_ge_def
        ops eq) (simp add: positions_def)
  have val_part: "IterPack_lt s (pack lhs) (pack rhs) = Some (values_at s lhs < values_at s rhs) \<and>
            IterPack_eq s (pack lhs) (pack rhs) = Some (values_at s lhs = values_at s rhs)"
    if "dereferenceable s lhs" and "dereferenceable s rhs"
  proof -
    have lv: "length (values_at s lhs) = length (values_at s rhs)"
      using l by (simp add: values_at_def)
    have dl: "deref s (pack lhs) = Some (map (\<lambda>x. ElemRef (cont x) (nat (pos x))) (iters (pack lhs)))"
      using that(1) by (rule deref_dereferenceable)
    have dr: "deref s (pack rhs) = Some (map (\<lambda>x. ElemRef (cont x) (nat (pos x))) (iters (pack rhs)))"
      using that(2) by (rule deref_dereferenceable)
    have vl: "map (ref_get s) (map (\<lambda>x. ElemRef (cont x) (nat (pos x))) (iters (pack lhs))) = values_at s lhs"
      by (simp only: ref_get_map values_at_def)
    have vr: "map (ref_get s) (map (\<lambda>x. ElemRef (cont x) (nat (pos x))) (iters (pack rhs))) = values_at s rhs"
      by (simp only: ref_get_map values_at_def)
    show ?thesis
      by (simp only: IterPack_lt_def IterPack_eq_def dl dr option.case vl vr tuple_less_val [OF lv])
  qed
  from pos_part val_part show ?thesis
    by blast
qed

text \<open>
  An instance in which the two comparisons disagree. The cursor at offset 1 is not before
  the cursor at offset 0, but its values \<open>[1, 8]\<close> are less than the values \<open>[1, 9]\<close> at
  offset 0: the first container ties and the second decides.
\<close>

theorem cursor_comparisons_and_value_comparisons_witness:
  "over [0, 1] (cursor_at [0, 1] 1) \<and> over [0, 1] (cursor_at [0, 1] 0) \<and>
   dereferenceable ((\<lambda>_. [])(0 := [1, 1, 2 :: int], 1 := [9, 8, 7])) (cursor_at [0, 1] 1) \<and>
   dereferenceable ((\<lambda>_. [])(0 := [1, 1, 2 :: int], 1 := [9, 8, 7])) (cursor_at [0, 1] 0) \<and>
   Iter_lt (cursor_at [0, 1] 1) (cursor_at [0, 1] 0) = Some False \<and>
   Iter_eq (cursor_at [0, 1] 1) (cursor_at [0, 1] 0) = False \<and>
   IterPack_lt ((\<lambda>_. [])(0 := [1, 1, 2 :: int], 1 := [9, 8, 7]))
     (pack (cursor_at [0, 1] 1)) (pack (cursor_at [0, 1] 0)) = Some True \<and>
   IterPack_eq ((\<lambda>_. [])(0 := [1, 1, 2 :: int], 1 := [9, 8, 7]))
     (pack (cursor_at [0, 1] 1)) (pack (cursor_at [0, 1] 0)) = Some False"
proof -
  let ?s = "(\<lambda>_. [])(0 := [1, 1, 2 :: int], 1 := [9, 8, 7])"
  have h1: "over [0, 1] (cursor_at [0, 1] 1)" and h2: "over [0, 1] (cursor_at [0, 1] 0)"
    by (rule over_cursor_at)+
  have d1: "dereferenceable ?s (cursor_at [0, 1] 1)" and d2: "dereferenceable ?s (cursor_at [0, 1] 0)"
    by (simp_all add: dereferenceable_def cursor_at_def)
  have p: "positions (cursor_at [0, 1] 1) = [1, 1]" "positions (cursor_at [0, 1] 0) = [0, 0]"
    by (simp_all add: positions_def cursor_at_def)
  have v: "values_at ?s (cursor_at [0, 1] 1) = [1, 8]" "values_at ?s (cursor_at [0, 1] 0) = [1, 9]"
    by (simp_all add: values_at_def cursor_at_def)
  have "Iter_lt (cursor_at [0, 1] 1) (cursor_at [0, 1] 0) = Some False \<and>
   Iter_eq (cursor_at [0, 1] 1) (cursor_at [0, 1] 0) = False \<and>
   IterPack_lt ?s (pack (cursor_at [0, 1] 1)) (pack (cursor_at [0, 1] 0)) = Some True \<and>
   IterPack_eq ?s (pack (cursor_at [0, 1] 1)) (pack (cursor_at [0, 1] 0)) = Some False"
    using cursor_comparisons_and_value_comparisons [OF h1 h2, of ?s] d1 d2
    unfolding p v by simp
  with h1 h2 d1 d2 show ?thesis
    by (intro conjI) simp_all
qed

subsection \<open>Dereferencing the pack: C4\<close>

text \<open>
  Claim C4 is about \<^verbatim>\<open>IterPack::operator*\<close>, which returns the result of the non-const
  \<^verbatim>\<open>deref_\<close>. That overload is written \<^verbatim>\<open>std::forward<>(*std::get<Seq>(iters_)...)\<close>; \<^verbatim>\<open>std::forward\<close>
  takes one argument and an explicit template argument, so the expression has no meaning
  for any number of containers and \<^verbatim>\<open>operator*\<close> cannot be instantiated. The const overload
  beside it is written with \<^verbatim>\<open>std::forward_as_tuple\<close>; it is the function \<open>deref\<close> of this
  theory and serves \<^verbatim>\<open>operator<\<close> and \<^verbatim>\<open>operator==\<close>. For that overload the first half of the
  claim holds: at a valid offset \<open>k\<close> the i-th reference denotes the slot \<open>k\<close> of the i-th
  container, and reading it gives that element.
\<close>

theorem const_deref_yields_current_elements:
  assumes "\<forall>c \<in> set cs. k < length (s c)" and "i < length cs"
  shows "\<exists>refs. deref s (pack (cursor_at cs (int k))) = Some refs \<and> length refs = length cs \<and>
           refs ! i = ElemRef (cs ! i) k \<and> ref_get s (refs ! i) = s (cs ! i) ! k"
proof -
  let ?refs = "map (\<lambda>c. ElemRef c k) cs"
  have d: "deref s (pack (cursor_at cs (int k))) = Some ?refs"
    using assms(1) by (rule deref_cursor_at)
  have l: "length ?refs = length cs"
    by simp
  have n: "?refs ! i = ElemRef (cs ! i) k"
    using assms(2) by (rule nth_map)
  have g: "ref_get s (?refs ! i) = s (cs ! i) ! k"
    by (simp only: n ref_get.simps)
  from d l n g show ?thesis
    by (intro exI conjI)
qed

text \<open>
  An instance: the second reference at offset 2 denotes the 7 of the second container.
\<close>

theorem const_deref_yields_current_elements_witness:
  "list_all (\<lambda>c. 2 < length (((\<lambda>_ :: addr. [])(0 := [3, 1, 2 :: int], 1 := [9, 8, 7])) c))
     [0, 1] \<and>
   1 < length [0 :: addr, 1] \<and>
   (\<exists>refs. deref ((\<lambda>_ :: addr. [])(0 := [3, 1, 2 :: int], 1 := [9, 8, 7]))
              (pack (cursor_at [0, 1] (int 2))) = Some refs \<and>
      refs ! 1 = ElemRef 1 2 \<and>
      ref_get ((\<lambda>_ :: addr. [])(0 := [3, 1, 2 :: int], 1 := [9, 8, 7])) (refs ! 1) = 7)"
proof -
  let ?s = "(\<lambda>_ :: addr. [])(0 := [3, 1, 2 :: int], 1 := [9, 8, 7])"
  have h1: "\<forall>c \<in> set [0, 1 :: addr]. 2 < length (?s c)"
    by simp
  have h2: "1 < length [0 :: addr, 1]"
    by simp
  from const_deref_yields_current_elements [OF h1 h2]
  obtain refs where r1: "deref ?s (pack (cursor_at [0, 1] (int 2))) = Some refs"
    and r2: "refs ! 1 = ElemRef ([0, 1] ! 1) 2"
    and r3: "ref_get ?s (refs ! 1) = ?s ([0, 1] ! 1) ! 2"
    by (elim exE conjE)
  have e2: "refs ! 1 = ElemRef 1 2"
    using r2 by simp
  have e3: "ref_get ?s (refs ! 1) = 7"
    using r3 by simp
  from r1 e2 e3 have "\<exists>refs. deref ?s (pack (cursor_at [0, 1] (int 2))) = Some refs \<and>
      refs ! 1 = ElemRef 1 2 \<and> ref_get ?s (refs ! 1) = 7"
    by (intro exI conjI)
  moreover have "list_all (\<lambda>c. 2 < length (?s c)) [0, 1]"
    by simp
  ultimately show ?thesis
    using h2 by (intro conjI)
qed

subsection \<open>The invariant: C5\<close>

text \<open>
  Claim C5. Pre-increment, pre-decrement, \<^verbatim>\<open>operator+\<close> and \<^verbatim>\<open>operator+=\<close> keep a synchronized
  cursor synchronized, and each moves every component by the same amount: by 1, by -1,
  and by the shift.
\<close>

theorem mutators_preserve_synchronized:
  assumes "synchronized it"
  shows "synchronized (Iter_incr it) \<and> synchronized (Iter_decr it) \<and>
         synchronized (Iter_add it n) \<and> synchronized (Iter_add_assign it n) \<and>
         positions (Iter_incr it) = map (\<lambda>p. p + 1) (positions it) \<and>
         positions (Iter_decr it) = map (\<lambda>p. p - 1) (positions it) \<and>
         positions (Iter_add it n) = map (\<lambda>p. p + sint n) (positions it) \<and>
         positions (Iter_add_assign it n) = map (\<lambda>p. p + sint n) (positions it)"
proof -
  have i: "synchronized (Iter_incr it)"
    using assms iters_Iter_incr by (rule synchronized_shift) (rule pos_shift_simps)
  have d: "synchronized (Iter_decr it)"
    using assms iters_Iter_decr by (rule synchronized_shift [where n = "- 1"]) (simp add: pos_shift_simps)
  have a: "synchronized (Iter_add_assign it n)"
    using assms iters_Iter_add_assign by (rule synchronized_shift) (rule pos_shift_simps)
  have pi: "positions (Iter_incr it) = map (\<lambda>p. p + 1) (positions it)"
    using iters_Iter_incr by (rule positions_map) (rule pos_shift_simps)
  have pd: "positions (Iter_decr it) = map (\<lambda>p. p - 1) (positions it)"
    using positions_map [OF iters_Iter_decr, where n = "- 1"] by (simp add: pos_shift_simps)
  have pa: "positions (Iter_add_assign it n) = map (\<lambda>p. p + sint n) (positions it)"
    using iters_Iter_add_assign by (rule positions_map) (rule pos_shift_simps)
  show ?thesis
    unfolding Iter_add_eq using i d a pi pd pa by (intro conjI)
qed

text \<open>
  An instance: the cursor at offset 1 of two containers, shifted by 2.
\<close>

theorem mutators_preserve_synchronized_witness:
  "synchronized (Iter_ctor [\<lparr>cont = 0, pos = 1\<rparr>, \<lparr>cont = 1, pos = 1\<rparr>]) \<and>
   synchronized (Iter_incr (Iter_ctor [\<lparr>cont = 0, pos = 1\<rparr>, \<lparr>cont = 1, pos = 1\<rparr>])) \<and>
   synchronized (Iter_decr (Iter_ctor [\<lparr>cont = 0, pos = 1\<rparr>, \<lparr>cont = 1, pos = 1\<rparr>])) \<and>
   synchronized (Iter_add (Iter_ctor [\<lparr>cont = 0, pos = 1\<rparr>, \<lparr>cont = 1, pos = 1\<rparr>]) 2) \<and>
   synchronized (Iter_add_assign (Iter_ctor [\<lparr>cont = 0, pos = 1\<rparr>, \<lparr>cont = 1, pos = 1\<rparr>]) 2)"
proof -
  have h: "synchronized (Iter_ctor [\<lparr>cont = 0, pos = 1\<rparr>, \<lparr>cont = 1, pos = 1\<rparr>])"
    by (simp add: synchronized_def Iter_ctor_def)
  have c: "synchronized (Iter_incr (Iter_ctor [\<lparr>cont = 0, pos = 1\<rparr>, \<lparr>cont = 1, pos = 1\<rparr>])) \<and>
   synchronized (Iter_decr (Iter_ctor [\<lparr>cont = 0, pos = 1\<rparr>, \<lparr>cont = 1, pos = 1\<rparr>])) \<and>
   synchronized (Iter_add (Iter_ctor [\<lparr>cont = 0, pos = 1\<rparr>, \<lparr>cont = 1, pos = 1\<rparr>]) 2) \<and>
   synchronized (Iter_add_assign (Iter_ctor [\<lparr>cont = 0, pos = 1\<rparr>, \<lparr>cont = 1, pos = 1\<rparr>]) 2)"
    using mutators_preserve_synchronized [OF h, of 2] by blast
  from h c show ?thesis by (rule conjI)
qed

subsection \<open>Advancing: C7, C8\<close>

text \<open>
  Claim C7, as the code has it: when all containers have length \<open>L\<close>, then for every
  shift \<open>k\<close> of the type \<^verbatim>\<open>int\<close> with \<open>0 \<le> k \<le> L\<close>, incrementing the begin cursor \<open>k\<close> times
  gives the same cursor as \<^verbatim>\<open>begin + k\<close> and as \<^verbatim>\<open>begin += k\<close>.
\<close>

theorem incr_k_times_equals_offset_add:
  assumes "\<forall>d \<in> set (c # cs). length (s d) = L" and "0 \<le> sint k" and "sint k \<le> int L"
  shows "\<exists>b. Begin s c cs = Inr b \<and>
           (Iter_incr ^^ nat (sint k)) b = Iter_add b k \<and>
           (Iter_incr ^^ nat (sint k)) b = Iter_add_assign b k \<and>
           positions ((Iter_incr ^^ nat (sint k)) b) = positions (Iter_add b k)"
proof -
  have b: "Begin s c cs = Inr (cursor_at (c # cs) 0)"
    using assms(1) by (simp add: Begin_cases)
  have "(Iter_incr ^^ nat (sint k)) (cursor_at (c # cs) 0) = cursor_at (c # cs) (sint k)"
    using assms(2) by (simp add: Iter_incr_funpow)
  moreover have "Iter_add_assign (cursor_at (c # cs) 0) k = cursor_at (c # cs) (sint k)"
    by (simp add: Iter_add_assign_cursor_at)
  ultimately show ?thesis
    by (simp add: b Iter_add_eq)
qed

text \<open>
  An instance: two increments and a shift by 2 over containers of length 3.
\<close>

theorem incr_k_times_equals_offset_add_witness:
  "list_all (\<lambda>d. length (((\<lambda>_::nat. [])(0 := [3, 1, 2 :: int], 1 := [9, 8, 7])) d) = 3) (0 # [1]) \<and>
   0 \<le> sint (2 :: c_int) \<and> sint (2 :: c_int) \<le> int 3 \<and>
   (\<exists>b. Begin ((\<lambda>_. [])(0 := [3, 1, 2 :: int], 1 := [9, 8, 7])) 0 [1] = Inr b \<and>
        Iter_incr (Iter_incr b) = Iter_add b 2 \<and>
        Iter_incr (Iter_incr b) = Iter_add_assign b 2)"
proof -
  have h1: "\<forall>d \<in> set (0 # [1]). length (((\<lambda>_::nat. [])(0 := [3, 1, 2 :: int], 1 := [9, 8, 7])) d) = 3"
    by simp
  have h2: "0 \<le> sint (2 :: c_int)" and h3: "sint (2 :: c_int) \<le> int 3"
    by simp_all
  have n: "nat (sint (2 :: c_int)) = Suc (Suc 0)"
    by simp
  from incr_k_times_equals_offset_add [OF h1 h2 h3]
  have "\<exists>b. Begin ((\<lambda>_. [])(0 := [3, 1, 2 :: int], 1 := [9, 8, 7])) 0 [1] = Inr b \<and>
        Iter_incr (Iter_incr b) = Iter_add b 2 \<and>
        Iter_incr (Iter_incr b) = Iter_add_assign b 2"
    unfolding n by (simp only: funpow.simps comp_def id_apply) blast
  moreover have "list_all (\<lambda>d. length (((\<lambda>_::nat. [])(0 := [3, 1, 2 :: int], 1 := [9, 8, 7])) d) = 3) (0 # [1])"
    by simp
  ultimately show ?thesis
    using h2 h3 by (intro conjI)
qed

text \<open>
  Claim C7 as stated, for every \<open>k\<close> up to \<open>L\<close>, fails for containers of \<open>2^31\<close> elements at
  \<open>k = 2^31\<close>. The parameter of \<^verbatim>\<open>operator+\<close> and \<^verbatim>\<open>operator+=\<close> is an \<^verbatim>\<open>int\<close>, which receives
  this \<open>k\<close> as \<open>- 2^31\<close>: \<open>2^31\<close> increments reach offset \<open>2^31\<close>, the end, and the
  offset-add goes to \<open>- 2^31\<close>.
\<close>

theorem offset_add_beyond_int_counterexample:
  "Begin ((\<lambda>_. [])(0 := replicate 2147483648 (0::nat), 1 := replicate 2147483648 0)) 0 [1] =
     Inr (cursor_at [0, 1] 0) \<and>
   positions ((Iter_incr ^^ 2147483648) (cursor_at [0, 1] 0)) = [2147483648, 2147483648] \<and>
   positions (Iter_add (cursor_at [0, 1] 0) 2147483648) = [- 2147483648, - 2147483648] \<and>
   positions (Iter_add_assign (cursor_at [0, 1] 0) 2147483648) = [- 2147483648, - 2147483648]"
proof -
  have b: "Begin ((\<lambda>_. [])(0 := replicate 2147483648 (0::nat), 1 := replicate 2147483648 0)) 0 [1] =
     Inr (cursor_at [0, 1] 0)"
    by (simp add: Begin_cases)
  have i: "(Iter_incr ^^ 2147483648) (cursor_at [0, 1] 0) = cursor_at [0, 1] 2147483648"
    by (simp only: Iter_incr_funpow) simp
  have s: "sint (2147483648 :: c_int) = - 2147483648"
    by simp
  have a: "Iter_add_assign (cursor_at [0, 1] 0) 2147483648 = cursor_at [0, 1] (- 2147483648)"
    by (simp only: Iter_add_assign_cursor_at s) simp
  show ?thesis
    by (simp only: b i a Iter_add_eq positions_cursor_at) simp
qed

text \<open>
  Claim C8. When all containers have length \<open>L\<close>, the begin cursor incremented \<open>L\<close> times
  is equal, by \<^verbatim>\<open>operator==\<close> of \<^verbatim>\<open>Iter\<close>, to the cursor that \<^verbatim>\<open>End\<close> builds for the same
  containers.
\<close>

theorem advanced_begin_equals_End:
  assumes "\<forall>d \<in> set (c # cs). length (s d) = L"
  shows "\<exists>b. Begin s c cs = Inr b \<and> Iter_eq ((Iter_incr ^^ L) b) (End s (c # cs))"
proof -
  have b: "Begin s c cs = Inr (cursor_at (c # cs) 0)"
    using assms by (simp add: Begin_cases)
  have e: "End s (c # cs) = cursor_at (c # cs) (int L)"
    using assms by (rule End_cursor_at)
  have "(Iter_incr ^^ L) (cursor_at (c # cs) 0) = cursor_at (c # cs) (int L)"
    by (simp add: Iter_incr_funpow)
  then show ?thesis
    by (simp add: b e Iter_eq_def)
qed

text \<open>
  An instance: two containers of length 3.
\<close>

theorem advanced_begin_equals_End_witness:
  "list_all (\<lambda>d. length (((\<lambda>_::nat. [])(0 := [3, 1, 2 :: int], 1 := [9, 8, 7])) d) = 3) (0 # [1]) \<and>
   (\<exists>b. Begin ((\<lambda>_. [])(0 := [3, 1, 2 :: int], 1 := [9, 8, 7])) 0 [1] = Inr b \<and>
        Iter_eq ((Iter_incr ^^ 3) b) (End ((\<lambda>_. [])(0 := [3, 1, 2 :: int], 1 := [9, 8, 7])) (0 # [1])))"
proof -
  have h: "\<forall>d \<in> set (0 # [1]). length (((\<lambda>_::nat. [])(0 := [3, 1, 2 :: int], 1 := [9, 8, 7])) d) = 3"
    by simp
  have "list_all (\<lambda>d. length (((\<lambda>_::nat. [])(0 := [3, 1, 2 :: int], 1 := [9, 8, 7])) d) = 3) (0 # [1])"
    by simp
  then show ?thesis
    using advanced_begin_equals_End [OF h] by (rule conjI)
qed

subsection \<open>Difference: C9\<close>

text \<open>
  Claim C9. For two cursors over the same group, \<^verbatim>\<open>lhs - rhs\<close> is the position of the first
  component of \<open>lhs\<close> minus the position of the first component of \<open>rhs\<close>, whatever the
  other components are; when both cursors are synchronized it is the difference of the
  positions of every component.
\<close>

theorem Iter_diff_uses_first_component:
  assumes "iters (pack lhs) = x # xs" and "iters (pack rhs) = y # ys"
    and "over cs lhs" and "over cs rhs"
  shows "Iter_diff lhs rhs = Some (pos x - pos y) \<and>
         (synchronized lhs \<and> synchronized rhs \<longrightarrow>
            (\<forall>i < length cs. Iter_diff lhs rhs = Some (positions lhs ! i - positions rhs ! i)))"
proof -
  have c: "cont x = cont y"
    using assms by (rule first_conts_equal)
  have d: "Iter_diff lhs rhs = Some (pos x - pos y)"
    by (simp add: Iter_diff_def assms(1,2) it_diff_def c)
  have lx: "length cs = Suc (length xs)"
    using assms(1,3) by (auto simp: over_def)
  have ly: "length cs = Suc (length ys)"
    using assms(2,4) by (auto simp: over_def)
  have "positions lhs ! i - positions rhs ! i = pos x - pos y"
    if "synchronized lhs" and "synchronized rhs" and "i < length cs" for i
    using synchronized_nth [OF that(1) assms(1), of i] synchronized_nth [OF that(2) assms(2), of i]
      that(3) lx ly by simp
  with d show ?thesis
    by simp
qed

text \<open>
  An instance: the cursors at offsets 5 and 2 of two containers.
\<close>

theorem Iter_diff_uses_first_component_witness:
  "iters (pack (cursor_at [0, 1] 5)) = \<lparr>cont = 0, pos = 5\<rparr> # [\<lparr>cont = 1, pos = 5\<rparr>] \<and>
   iters (pack (cursor_at [0, 1] 2)) = \<lparr>cont = 0, pos = 2\<rparr> # [\<lparr>cont = 1, pos = 2\<rparr>] \<and>
   over [0, 1] (cursor_at [0, 1] 5) \<and> over [0, 1] (cursor_at [0, 1] 2) \<and>
   Iter_diff (cursor_at [0, 1] 5) (cursor_at [0, 1] 2) = Some 3"
proof -
  have h1: "iters (pack (cursor_at [0, 1] 5)) = \<lparr>cont = 0, pos = 5\<rparr> # [\<lparr>cont = 1, pos = 5\<rparr>]"
    and h2: "iters (pack (cursor_at [0, 1] 2)) = \<lparr>cont = 0, pos = 2\<rparr> # [\<lparr>cont = 1, pos = 2\<rparr>]"
    by (simp_all add: cursor_at_def)
  have h3: "over [0, 1] (cursor_at [0, 1] 5)" and h4: "over [0, 1] (cursor_at [0, 1] 2)"
    by (rule over_cursor_at)+
  have "Iter_diff (cursor_at [0, 1] 5) (cursor_at [0, 1] 2) = Some 3"
    using Iter_diff_uses_first_component [OF h1 h2 h3 h4] by simp
  with h1 h2 h3 h4 show ?thesis
    by (intro conjI)
qed

subsection \<open>Dereferencing the cursor: C10\<close>

text \<open>
  Claim C10. \<^verbatim>\<open>operator*\<close> of a cursor returns the reference to the pack inside that cursor:
  in every state of the cursors it denotes the pack the cursor has then. For a cursor at
  offset \<open>k\<close>, the reference taken before an increment denotes after the increment the pack
  at offset \<open>k + 1\<close> and the elements there. A copy of the dereferenced pack holds the
  positions at offset \<open>k\<close>, not the elements: in any later state of the containers it
  yields the elements that are at offset \<open>k\<close> then.
\<close>

theorem Iter_star_refers_to_own_pack:
  assumes "\<sigma> this = cursor_at cs (int k)" and "\<forall>c \<in> set cs. Suc k < length (s c)"
  shows "(\<forall>\<sigma>'. pack_get \<sigma>' (Iter_star this) = pack (\<sigma>' this)) \<and>
         pack_get \<sigma> (Iter_star this) = pack (cursor_at cs (int k)) \<and>
         pack_get (in_place Iter_incr this \<sigma>) (Iter_star this) = pack (cursor_at cs (int (Suc k))) \<and>
         map_option (map (ref_get s)) (deref s (pack_get \<sigma> (Iter_star this))) =
           Some (map (\<lambda>c. s c ! k) cs) \<and>
         map_option (map (ref_get s)) (deref s (pack_get (in_place Iter_incr this \<sigma>) (Iter_star this))) =
           Some (map (\<lambda>c. s c ! Suc k) cs) \<and>
         IterPack_copy \<sigma> (Iter_star this) = pack (cursor_at cs (int k)) \<and>
         (\<forall>s'. (\<forall>c \<in> set cs. k < length (s' c)) \<longrightarrow>
            map_option (map (ref_get s')) (deref s' (IterPack_copy \<sigma> (Iter_star this))) =
              Some (map (\<lambda>c. s' c ! k) cs))"
proof -
  have c1: "\<forall>\<sigma>'. pack_get \<sigma>' (Iter_star this) = pack (\<sigma>' this)"
    by (simp add: Iter_star_def)
  have c2: "pack_get \<sigma> (Iter_star this) = pack (cursor_at cs (int k))"
    by (simp add: Iter_star_def assms(1))
  have "Iter_incr (cursor_at cs (int k)) = cursor_at cs (int (Suc k))"
    by (simp add: Iter_incr_cursor_at add.commute)
  then have c3: "pack_get (in_place Iter_incr this \<sigma>) (Iter_star this) =
      pack (cursor_at cs (int (Suc k)))"
    by (simp add: Iter_star_def in_place_def assms(1))
  have k: "\<forall>c \<in> set cs. k < length (s c)"
    using assms(2) by auto
  have c4: "map_option (map (ref_get s)) (deref s (pack_get \<sigma> (Iter_star this))) =
      Some (map (\<lambda>c. s c ! k) cs)"
    unfolding c2 using k by (rule values_through_cursor_at)
  have c5: "map_option (map (ref_get s))
      (deref s (pack_get (in_place Iter_incr this \<sigma>) (Iter_star this))) =
      Some (map (\<lambda>c. s c ! Suc k) cs)"
    unfolding c3 using assms(2) by (rule values_through_cursor_at)
  have c6: "IterPack_copy \<sigma> (Iter_star this) = pack (cursor_at cs (int k))"
    by (simp add: IterPack_copy_def c2)
  have c7: "\<forall>s'. (\<forall>c \<in> set cs. k < length (s' c)) \<longrightarrow>
      map_option (map (ref_get s')) (deref s' (IterPack_copy \<sigma> (Iter_star this))) =
        Some (map (\<lambda>c. s' c ! k) cs)"
    unfolding c6 by (intro allI impI) (rule values_through_cursor_at)
  from c1 c2 c3 c4 c5 c6 c7 show ?thesis
    by (intro conjI)
qed

text \<open>
  An instance: a cursor object at address 7, at offset 0 of two containers of length 3.
\<close>

theorem Iter_star_refers_to_own_pack_witness:
  "((\<lambda>_ :: addr. Iter_ctor [])(7 := cursor_at [0, 1] 0)) 7 = cursor_at [0, 1] (int 0) \<and>
   list_all (\<lambda>c. Suc 0 < length (((\<lambda>_ :: addr. [])(0 := [3, 1, 2 :: int], 1 := [9, 8, 7])) c))
     [0, 1] \<and>
   map_option (map (ref_get ((\<lambda>_ :: addr. [])(0 := [3, 1, 2 :: int], 1 := [9, 8, 7]))))
     (deref ((\<lambda>_ :: addr. [])(0 := [3, 1, 2 :: int], 1 := [9, 8, 7]))
        (pack_get ((\<lambda>_ :: addr. Iter_ctor [])(7 := cursor_at [0, 1] 0)) (Iter_star 7))) =
     Some [3, 9] \<and>
   map_option (map (ref_get ((\<lambda>_ :: addr. [])(0 := [3, 1, 2 :: int], 1 := [9, 8, 7]))))
     (deref ((\<lambda>_ :: addr. [])(0 := [3, 1, 2 :: int], 1 := [9, 8, 7]))
        (pack_get (in_place Iter_incr 7 ((\<lambda>_ :: addr. Iter_ctor [])(7 := cursor_at [0, 1] 0)))
           (Iter_star 7))) =
     Some [1, 8]"
proof -
  let ?s = "(\<lambda>_ :: addr. [])(0 := [3, 1, 2 :: int], 1 := [9, 8, 7])"
  let ?\<sigma> = "(\<lambda>_ :: addr. Iter_ctor [])(7 := cursor_at [0, 1] 0)"
  have h1: "?\<sigma> 7 = cursor_at [0, 1] (int 0)"
    by simp
  have h2: "\<forall>c \<in> set [0, 1 :: addr]. Suc 0 < length (?s c)"
    by simp
  note t = Iter_star_refers_to_own_pack [where \<sigma> = ?\<sigma> and this = 7 and cs = "[0, 1]" and k = 0
        and s = ?s, OF h1 h2]
  have a: "map_option (map (ref_get ?s)) (deref ?s (pack_get ?\<sigma> (Iter_star 7))) =
      Some (map (\<lambda>c. ?s c ! 0) [0, 1])"
    by (rule t [THEN conjunct2, THEN conjunct2, THEN conjunct2, THEN conjunct1])
  have b: "map_option (map (ref_get ?s))
      (deref ?s (pack_get (in_place Iter_incr 7 ?\<sigma>) (Iter_star 7))) =
      Some (map (\<lambda>c. ?s c ! Suc 0) [0, 1])"
    by (rule t [THEN conjunct2, THEN conjunct2, THEN conjunct2, THEN conjunct2, THEN conjunct1])
  have e: "map (\<lambda>c. ?s c ! 0) [0, 1] = [3, 9]" "map (\<lambda>c. ?s c ! Suc 0) [0, 1] = [1, 8]"
    by simp_all
  have l: "list_all (\<lambda>c. Suc 0 < length (?s c)) [0, 1]"
    by simp
  from h1 l a [unfolded e] b [unfolded e] show ?thesis
    by (intro conjI)
qed

end
